theory Spec2Isabelle
  imports Complex_Main "HOL-Library.AList"
begin

section \<open>The manager socket of QCFractal\<close>

text \<open>
  A shallow embedding of \<^verbatim>\<open>ManagerSocket\<close>
  (\<^verbatim>\<open>src/qcfractal/components/managers/sockets.py\<close>): activation of a compute
  manager, its resource heartbeat, deactivation with the release of its tasks, and the
  size guard of the point lookup.

  Conventions of the model.
  \<^item> A Python \<^verbatim>\<open>str\<close> is a \<open>string\<close>; only ASCII letters have a lower-case form.
  \<^item> A Python \<^verbatim>\<open>float\<close> is a \<open>real\<close>: the socket copies and stores floats and
    never computes with them.
  \<^item> A \<^verbatim>\<open>datetime\<close> is an \<open>int\<close> (a point on the UTC time line); the socket only
    compares datetimes with \<^verbatim>\<open><\<close>.
  \<^item> A Python \<^verbatim>\<open>dict\<close> is an association list with distinct keys in insertion
    order; storing under a present key keeps the key's position
    (\<^const>\<open>AList.update\<close>).
  \<^item> A raised exception is the left summand of the result; every operation also
    returns the state it leaves behind, so that "nothing changed" is a statement
    about the returned state.
\<close>

subsection \<open>Strings\<close>

definition char_lower :: "char \<Rightarrow> char" where
  "char_lower c =
     (case map_of (zip ''ABCDEFGHIJKLMNOPQRSTUVWXYZ'' ''abcdefghijklmnopqrstuvwxyz'') c of
        Some l \<Rightarrow> l
      | None \<Rightarrow> c)"

definition lower :: "string \<Rightarrow> string" where
  "lower x = map char_lower x"

text \<open>The decimal rendering that an f-string gives a non-negative count.\<close>

fun str_nat :: "nat \<Rightarrow> string" where
  "str_nat n =
     (if n < 10 then [''0123456789'' ! n]
      else str_nat (n div 10) @ [''0123456789'' ! (n mod 10)])"

declare str_nat.simps [simp del]

definition str_int :: "int \<Rightarrow> string" where
  "str_int i = (if i < 0 then CHR ''-'' # str_nat (nat (- i)) else str_nat (nat i))"

subsection \<open>Data model\<close>

type_synonym datetime = int

datatype ManagerStatusEnum = active | inactive

text \<open>
  The value of an attribute that the code assigns either a float or a tuple.
\<close>

datatype pyvalue = PyFloat real | PyTuple "pyvalue list"

text \<open>
  \<^verbatim>\<open>ComputeManagerORM\<close> and \<^verbatim>\<open>ComputeManagerLogORM\<close> (module
  \<^verbatim>\<open>db_models\<close>) carry the same nine counter columns, which
  \<^verbatim>\<open>save_snapshot\<close> copies one by one; the model declares them once and extends
  them to the two row types.
\<close>

record counters =
  claimed :: int
  successes :: int
  failures :: int
  rejected :: int
  total_worker_walltime :: real
  total_task_walltime :: pyvalue
  active_tasks :: int
  active_cores :: int
  active_memory :: real

record ComputeManagerLogORM = counters +
  timestamp :: datetime

record ComputeManagerORM = counters +
  id' :: int
  name :: string
  cluster :: string
  hostname :: string
  username :: "string option"
  tags :: "string list"
  status :: ManagerStatusEnum
  manager_version :: string
  qcengine_version :: string
  programs :: "(string \<times> string option) list"
  created_on :: datetime
  modified_on :: datetime
  log' :: "ComputeManagerLogORM list"

record ManagerName =
  fullname :: string
  cluster_of :: string
  hostname_of :: string

datatype error =
    ComputeManagerError string bool   \<comment> \<open>message, \<^verbatim>\<open>shutdown\<close>\<close>
  | RuntimeError string
  | MultipleResultsFound              \<comment> \<open>raised by \<^verbatim>\<open>scalar_one_or_none\<close>\<close>

datatype log_record = Warning string | Info string

text \<open>
  What the socket acts on: the manager table in row order, the sequence of the primary
  key, the state of the task subsystem (of any type \<open>'t\<close>), the clock that
  \<^verbatim>\<open>datetime.utcnow()\<close> reads, and what the Python logger has received.
\<close>

record 't server =
  managers :: "ComputeManagerORM list"
  next_id :: int
  tasks :: 't
  utcnow :: datetime
  logger :: "log_record list"

type_synonym ('a, 't) outcome = "(error + 'a) \<times> 't server"

subsection \<open>Python helpers\<close>

text \<open>
  \<^verbatim>\<open>list(dict.fromkeys(xs))\<close>: the keys are inserted from left to right, and
  inserting a key that is present changes nothing.
\<close>

definition dict_fromkeys :: "'a list \<Rightarrow> 'a list" where
  "dict_fromkeys xs = foldl (\<lambda>d k. if k \<in> set d then d else d @ [k]) [] xs"

text \<open>
  Modelled from the spec: \<^verbatim>\<open>get_count_2\<close> of \<^verbatim>\<open>qcfractal.db_socket.helpers\<close> is
  not among the sources. It is the uniqueness check of activation: the number of rows
  that the statement (here: the rows with the given name) selects.
\<close>

definition get_count_2 :: "'t server \<Rightarrow> string \<Rightarrow> nat" where
  "get_count_2 session nm = length (filter (\<lambda>m. name m = nm) (managers session))"

text \<open>
  \<^verbatim>\<open>session.execute(stmt).scalar_one_or_none()\<close> for the rows with the given name.
\<close>

definition scalar_one_or_none :: "'t server \<Rightarrow> string \<Rightarrow> error + ComputeManagerORM option" where
  "scalar_one_or_none session nm =
     (case filter (\<lambda>m. name m = nm) (managers session) of
        [] \<Rightarrow> Inr None
      | [m] \<Rightarrow> Inr (Some m)
      | _ \<Rightarrow> Inl MultipleResultsFound)"

subsection \<open>save_snapshot\<close>

definition save_snapshot :: "ComputeManagerORM \<Rightarrow> ComputeManagerORM" where
  "save_snapshot orm =
     (let log_orm =
        \<lparr> claimed = claimed orm,
          successes = successes orm,
          failures = failures orm,
          rejected = rejected orm,
          total_worker_walltime = total_worker_walltime orm,
          total_task_walltime = total_task_walltime orm,
          active_tasks = active_tasks orm,
          active_cores = active_cores orm,
          active_memory = active_memory orm,
          timestamp = modified_on orm \<rparr>
      in orm\<lparr>log' := log' orm @ [log_orm]\<rparr>)"

subsection \<open>activate\<close>

text \<open>
  The columns that the constructor call of \<^verbatim>\<open>activate\<close> leaves unset take the
  defaults that \<^verbatim>\<open>db_models\<close> declares; that module is not among the sources, so
  the row of defaults \<open>dflt\<close> is a parameter. \<^verbatim>\<open>session.flush()\<close> gives the new row
  the next value of the key sequence, and the log of a new row is empty.
\<close>

definition activate ::
  "ComputeManagerORM \<Rightarrow> ManagerName \<Rightarrow> string \<Rightarrow> string \<Rightarrow> string option \<Rightarrow>
   (string \<times> string option) list \<Rightarrow> string list \<Rightarrow> 't server \<Rightarrow> (int, 't) outcome" where
  "activate dflt name_data manager_version' qcengine_version' username' programs' tags' session =
     (let tags1 = map lower (filter (\<lambda>x. length x > 0) tags');
          programs1 = foldl (\<lambda>d (k, v). if length k > 0 then AList.update (lower k) v d else d)
                        [] programs'
      in if length tags1 = 0 then
           (Inl (ComputeManagerError
              (''Manager does not have any tags assigned. Use '' @ [CHR 0x27, CHR ''*'', CHR 0x27]
               @ '' to match all tags'')
              True), session)
         else if length programs1 = 0 then
           (Inl (ComputeManagerError ''Manager does not have any programs available'' True), session)
         else
           let tags2 = dict_fromkeys tags1;
               manager_orm = dflt\<lparr>
                 name := fullname name_data,
                 cluster := cluster_of name_data,
                 hostname := hostname_of name_data,
                 username := username',
                 tags := tags2,
                 status := active,
                 manager_version := manager_version',
                 qcengine_version := qcengine_version',
                 programs := programs1,
                 log' := [] \<rparr>;
               count = get_count_2 session (fullname name_data)
           in if count > 0 then
                (Inl (ComputeManagerError ''A manager with this name already exists'' True),
                 session\<lparr>logger := logger session @
                    [Warning (''Cannot activate duplicate manager: '' @ fullname name_data)]\<rparr>)
              else
                let manager_orm = manager_orm\<lparr>id' := next_id session\<rparr>
                in (Inr (id' manager_orm),
                    session\<lparr>managers := managers session @ [manager_orm],
                            next_id := next_id session + 1\<rparr>))"

subsection \<open>update_resource_stats\<close>

text \<open>
  The selected ORM object is the row of the table: assigning its attributes and
  appending to its log rewrites that row when the session commits. The statement
  selects by name, and the code goes on only when exactly one row matches.
\<close>

definition update_resource_stats ::
  "string \<Rightarrow> real \<Rightarrow> real \<Rightarrow> int \<Rightarrow> int \<Rightarrow> real \<Rightarrow> 't server \<Rightarrow> (unit, 't) outcome" where
  "update_resource_stats nm total_worker_walltime' total_task_walltime' active_tasks'
       active_cores' active_memory' session =
     (case scalar_one_or_none session nm of
        Inl e \<Rightarrow> (Inl e, session)
      | Inr None \<Rightarrow>
          (Inl (ComputeManagerError
             (''Cannot update resource stats for manager '' @ nm @ '' - does not exist'') True),
           session)
      | Inr (Some manager) \<Rightarrow>
          if status manager \<noteq> active then
            (Inl (ComputeManagerError
               (''Cannot update resource stats for manager '' @ nm @ '' - is not active'') True),
             session)
          else
            let manager = manager\<lparr>total_worker_walltime := total_worker_walltime'\<rparr>;
                manager = manager\<lparr>total_task_walltime := PyTuple [PyFloat total_task_walltime']\<rparr>;
                manager = manager\<lparr>active_tasks := active_tasks'\<rparr>;
                manager = manager\<lparr>active_cores := active_cores'\<rparr>;
                manager = manager\<lparr>active_memory := active_memory'\<rparr>;
                manager = manager\<lparr>modified_on := utcnow session\<rparr>;
                manager = save_snapshot manager
            in (Inr (),
                session\<lparr>managers :=
                  map (\<lambda>row. if name row = nm then manager else row) (managers session)\<rparr>))"

subsection \<open>deactivate\<close>

text \<open>
  \<^verbatim>\<open>records.reset_assigned\<close> belongs to the task subsystem and is not among the
  sources: it is the parameter \<open>reset_assigned\<close>, which takes the list of manager
  names and the state of the task subsystem and returns the identifiers of the tasks
  it released and the new state of the task subsystem. It is taken to return (a raise
  inside it is outside this model) and to leave the manager table alone.

  The arguments \<^verbatim>\<open>name\<close> of \<^verbatim>\<open>update_resource_stats\<close> and \<^verbatim>\<open>deactivate\<close> are
  \<open>nm\<close> and \<open>names\<close> here, since \<open>name\<close> is the column.

  The loop over the names that the update returned:
\<close>

fun release_orphans ::
  "(string list \<Rightarrow> 't \<Rightarrow> int list \<times> 't) \<Rightarrow> string \<Rightarrow> string list \<Rightarrow> 't server \<Rightarrow> 't server" where
  "release_orphans reset_assigned reason [] session = session"
| "release_orphans reset_assigned reason (dead_name # rest) session =
     (let (incomplete_ids, tasks1) = reset_assigned [dead_name] (tasks session)
      in release_orphans reset_assigned reason rest
           (session\<lparr>tasks := tasks1,
              logger := logger session @
                [Info (''Deactivated manager '' @ dead_name @ ''. Reason: '' @ reason
                       @ ''. Recycling '' @ str_nat (length incomplete_ids)
                       @ '' incomplete tasks.'')]\<rparr>))"

text \<open>
  Python truth of the two optional arguments: \<^verbatim>\<open>None\<close> and the empty list are
  false, every datetime is true.
\<close>

definition truthy_names :: "string list option \<Rightarrow> bool" where
  "truthy_names names = (case names of None \<Rightarrow> False | Some ns \<Rightarrow> ns \<noteq> [])"

definition truthy_datetime :: "datetime option \<Rightarrow> bool" where
  "truthy_datetime t = (case t of None \<Rightarrow> False | Some _ \<Rightarrow> True)"

text \<open>The conjuncts that the code collects in \<^verbatim>\<open>query_and\<close>.\<close>

definition query_and :: "string list option \<Rightarrow> datetime option \<Rightarrow> (ComputeManagerORM \<Rightarrow> bool) list" where
  "query_and names modified_before =
     (case names of
        Some ns \<Rightarrow> if truthy_names names then [\<lambda>m. name m \<in> set ns] else []
      | None \<Rightarrow> [])
     @ (case modified_before of
          Some t \<Rightarrow> if truthy_datetime modified_before then [\<lambda>m. modified_on m < t] else []
        | None \<Rightarrow> [])"

text \<open>The \<^verbatim>\<open>where\<close> clause of the update statement.\<close>

definition deactivate_where :: "string list option \<Rightarrow> datetime option \<Rightarrow> ComputeManagerORM \<Rightarrow> bool" where
  "deactivate_where names modified_before m =
     (status m = active \<and> list_all (\<lambda>q. q m) (query_and names modified_before))"

text \<open>
  The update statement rewrites the matching rows and returns their names; the model
  returns them in row order.
\<close>

definition deactivate ::
  "(string list \<Rightarrow> 't \<Rightarrow> int list \<times> 't) \<Rightarrow> string list option \<Rightarrow> datetime option \<Rightarrow> string \<Rightarrow>
   't server \<Rightarrow> string list \<times> 't server" where
  "deactivate reset_assigned names modified_before reason session =
     (if \<not> truthy_names names \<and> \<not> truthy_datetime modified_before then ([], session)
      else
        let now = utcnow session;
            deactivated_names =
              map name (filter (deactivate_where names modified_before) (managers session));
            session1 = session\<lparr>managers :=
              map (\<lambda>m. if deactivate_where names modified_before m
                       then m\<lparr>status := inactive, modified_on := now\<rparr> else m)
                  (managers session)\<rparr>
        in (deactivated_names, release_orphans reset_assigned reason deactivated_names session1))"

subsection \<open>get\<close>

text \<open>
  \<^verbatim>\<open>get_general\<close> of \<^verbatim>\<open>qcfractal.db_socket.helpers\<close> is not among the sources:
  it is the parameter \<open>get_general\<close>, the only access of \<^verbatim>\<open>get\<close> to the store.
  \<open>manager_limit\<close> is \<^verbatim>\<open>response_limits.manager\<close> of the configuration.
\<close>

definition get ::
  "int \<Rightarrow> (string list \<Rightarrow> string list option \<Rightarrow> string list option \<Rightarrow> bool \<Rightarrow> 't server \<Rightarrow> ('r, 't) outcome) \<Rightarrow>
   string list \<Rightarrow> string list option \<Rightarrow> string list option \<Rightarrow> bool \<Rightarrow> 't server \<Rightarrow> ('r, 't) outcome" where
  "get manager_limit get_general names include' exclude' missing_ok session =
     (if int (length names) > manager_limit then
        (Inl (RuntimeError (''Request for '' @ str_nat (length names)
                @ '' managers is over the limit of '' @ str_int manager_limit)), session)
      else get_general names include' exclude' missing_ok session)"

subsection \<open>The specification's normal forms\<close>

text \<open>
  "Deduplicated, preserving first-seen order": the first element stays, and its later
  copies are removed from the rest.
\<close>

fun dedup_first_seen :: "'a list \<Rightarrow> 'a list" where
  "dedup_first_seen [] = []"
| "dedup_first_seen (x # xs) = x # dedup_first_seen (filter (\<lambda>y. y \<noteq> x) xs)"

text \<open>"The programs with empty keys dropped and keys lower-cased", as a list of items.\<close>

definition lowered_programs :: "(string \<times> 'v) list \<Rightarrow> (string \<times> 'v) list" where
  "lowered_programs ps = map (\<lambda>(k, v). (lower k, v)) (filter (\<lambda>(k, v). k \<noteq> []) ps)"

subsection \<open>The filter of deactivation, in words\<close>

text \<open>
  A row is hit by a deactivation when it is active, its name is among the given names
  if a non-empty list of names is given, and it was last modified before the cutoff if
  a cutoff is given.
\<close>

definition hit :: "string list option \<Rightarrow> datetime option \<Rightarrow> ComputeManagerORM \<Rightarrow> bool" where
  "hit names modified_before m =
     (status m = active
      \<and> (case names of None \<Rightarrow> True | Some ns \<Rightarrow> ns = [] \<or> name m \<in> set ns)
      \<and> (case modified_before of None \<Rightarrow> True | Some t \<Rightarrow> modified_on m < t))"

subsection \<open>Runs of the subsystem\<close>

text \<open>
  A run is a list of events: the three calls that write, and the passing of time. The
  defaults of a new row may depend on the state in which it is inserted.
\<close>

datatype call =
    Activate ManagerName string string "string option" "(string \<times> string option) list" "string list"
  | UpdateResourceStats string real real int int real
  | Deactivate "string list option" "datetime option" string
  | Clock datetime

fun step ::
  "('t server \<Rightarrow> ComputeManagerORM) \<Rightarrow> (string list \<Rightarrow> 't \<Rightarrow> int list \<times> 't) \<Rightarrow> call \<Rightarrow>
   't server \<Rightarrow> 't server" where
  "step dflt ra (Activate name_data mv qv user progs tgs) s =
     snd (activate (dflt s) name_data mv qv user progs tgs s)"
| "step dflt ra (UpdateResourceStats nm w t n_tasks n_cores mem) s =
     snd (update_resource_stats nm w t n_tasks n_cores mem s)"
| "step dflt ra (Deactivate names mb reason) s = snd (deactivate ra names mb reason s)"
| "step dflt ra (Clock t) s = s\<lparr>utcnow := t\<rparr>"

fun run ::
  "('t server \<Rightarrow> ComputeManagerORM) \<Rightarrow> (string list \<Rightarrow> 't \<Rightarrow> int list \<times> 't) \<Rightarrow> call list \<Rightarrow>
   't server \<Rightarrow> 't server" where
  "run dflt ra [] s = s"
| "run dflt ra (c # cs) s = run dflt ra cs (step dflt ra c s)"



subsection \<open>A small server\<close>

text \<open>
  Two registered managers, \<open>m1\<close> active and \<open>m2\<close> inactive, and a task subsystem
  that records the calls of \<^verbatim>\<open>reset_assigned\<close> it receives.
\<close>

definition dflt0 :: ComputeManagerORM where
  "dflt0 =
     \<lparr> claimed = 0, successes = 0, failures = 0, rejected = 0,
       total_worker_walltime = 0, total_task_walltime = PyFloat 0,
       active_tasks = 0, active_cores = 0, active_memory = 0,
       id' = 0, name = [], cluster = [], hostname = [], username = None, tags = [],
       status = active, manager_version = [], qcengine_version = [], programs = [],
       created_on = 0, modified_on = 0, log' = [] \<rparr>"

definition m1 :: ComputeManagerORM where
  "m1 = dflt0\<lparr>id' := 1, name := ''m1'', claimed := 7, total_worker_walltime := 1,
          modified_on := 5\<rparr>"

definition m2 :: ComputeManagerORM where
  "m2 = dflt0\<lparr>id' := 2, name := ''m2'', status := inactive, modified_on := 2\<rparr>"

definition server0 :: "string list list server" where
  "server0 = \<lparr> managers = [m1, m2], next_id = 3, tasks = [], utcnow = 10, logger = [] \<rparr>"

definition record_call :: "string list \<Rightarrow> string list list \<Rightarrow> int list \<times> string list list" where
  "record_call ns t = ([], t @ [ns])"

definition no_get_general ::
  "string list \<Rightarrow> string list option \<Rightarrow> string list option \<Rightarrow> bool \<Rightarrow>
   string list list server \<Rightarrow> (unit, string list list) outcome" where
  "no_get_general ns inc exc missing_ok session = (Inr (), session)"

definition name0 :: ManagerName where
  "name0 = \<lparr> fullname = ''m3'', cluster_of = ''c'', hostname_of = ''h'' \<rparr>"

definition name1 :: ManagerName where
  "name1 = \<lparr> fullname = ''m1'', cluster_of = ''c'', hostname_of = ''h'' \<rparr>"


section \<open>Lemmas\<close>

subsection \<open>Python helpers\<close>

lemma foldl_insert_keys:
  "foldl (\<lambda>d k. if k \<in> set d then d else d @ [k]) d xs
     = d @ dedup_first_seen (filter (\<lambda>x. x \<notin> set d) xs)"
proof (induction xs arbitrary: d)
  case Nil
  then show ?case by simp
next
  case (Cons x xs)
  have "filter (\<lambda>y. y \<notin> set (d @ [x])) xs = filter (\<lambda>y. y \<noteq> x) (filter (\<lambda>y. y \<notin> set d) xs)"
    by (auto intro: filter_cong)
  with Cons show ?case by simp
qed

lemma dict_fromkeys_dedup: "dict_fromkeys xs = dedup_first_seen xs"
  by (simp add: dict_fromkeys_def foldl_insert_keys)

lemma set_dedup_first_seen: "set (dedup_first_seen xs) = set xs"
  by (induction xs rule: dedup_first_seen.induct) auto

lemma distinct_dedup_first_seen: "distinct (dedup_first_seen xs)"
  by (induction xs rule: dedup_first_seen.induct) (auto simp: set_dedup_first_seen)

lemma programs_fold_keys:
  "map fst (foldl (\<lambda>d (k, v). if k \<noteq> [] then AList.update (lower k) v d else d) d ps)
     = foldl (\<lambda>d k. if k \<in> set d then d else d @ [k]) (map fst d) (map fst (lowered_programs ps))"
proof (induction ps arbitrary: d)
  case Nil
  then show ?case by (simp add: lowered_programs_def)
next
  case (Cons p ps)
  obtain k v where p: "p = (k, v)" by (cases p)
  show ?case
  proof (cases "k = []")
    case True
    with p Cons show ?thesis by (simp add: lowered_programs_def)
  next
    case False
    with p Cons [of "AList.update (lower k) v d"] show ?thesis
      by (simp add: lowered_programs_def update_keys)
  qed
qed

lemma programs_fold_map_of:
  "map_of (foldl (\<lambda>d (k, v). if k \<noteq> [] then AList.update (lower k) v d else d) d ps)
     = map_of (rev (lowered_programs ps) @ d)"
proof (induction ps arbitrary: d)
  case Nil
  then show ?case by (simp add: lowered_programs_def)
next
  case (Cons p ps)
  obtain k v where p: "p = (k, v)" by (cases p)
  show ?case
  proof (cases "k = []")
    case True
    with p Cons show ?thesis by (simp add: lowered_programs_def)
  next
    case False
    have "map_of (rev (lowered_programs ps) @ AList.update (lower k) v d)
            = map_of (rev (lowered_programs ps) @ [(lower k, v)] @ d)"
      by (simp add: update_conv' map_add_def fun_eq_iff split: option.splits)
    with False p Cons [of "AList.update (lower k) v d"] show ?thesis
      by (simp add: lowered_programs_def)
  qed
qed

lemma programs_fold_empty:
  "foldl (\<lambda>d (k, v). if k \<noteq> [] then AList.update (lower k) v d else d) [] ps = []
     \<longleftrightarrow> filter (\<lambda>(k, v). k \<noteq> []) ps = []"
proof -
  have "foldl (\<lambda>d (k, v). if k \<noteq> [] then AList.update (lower k) v d else d) [] ps = []
          \<longleftrightarrow> map fst (foldl (\<lambda>d (k, v). if k \<noteq> [] then AList.update (lower k) v d else d) [] ps) = []"
    by simp
  also have "\<dots> \<longleftrightarrow> dedup_first_seen (map fst (lowered_programs ps)) = []"
    by (simp only: programs_fold_keys foldl_insert_keys) simp
  also have "\<dots> \<longleftrightarrow> lowered_programs ps = []"
    by (cases "lowered_programs ps") auto
  finally show ?thesis by (simp add: lowered_programs_def)
qed

subsection \<open>The store\<close>

lemma get_count_2_pos: "0 < get_count_2 s nm \<longleftrightarrow> (\<exists>m \<in> set (managers s). name m = nm)"
  by (auto simp: get_count_2_def filter_empty_conv)

lemma filter_name_unique:
  "distinct (map name ms) \<Longrightarrow> m \<in> set ms \<Longrightarrow> filter (\<lambda>r. name r = name m) ms = [m]"
proof (induction ms)
  case Nil
  then show ?case by simp
next
  case (Cons a ms)
  show ?case
  proof (cases "a = m")
    case True
    from Cons.prems have "\<forall>r \<in> set ms. name r \<noteq> name m"
      using True by (auto simp: image_iff)
    then have "filter (\<lambda>r. name r = name m) ms = []"
      by (simp add: filter_empty_conv)
    with True show ?thesis by simp
  next
    case False
    with Cons.prems have "m \<in> set ms" and "name a \<noteq> name m" and "distinct (map name ms)"
      by (auto simp: image_iff)
    with Cons.IH show ?thesis by simp
  qed
qed

lemma scalar_one_or_none_none:
  "\<forall>m \<in> set (managers s). name m \<noteq> nm \<Longrightarrow> scalar_one_or_none s nm = Inr None"
  by (simp add: scalar_one_or_none_def filter_empty_conv)

lemma scalar_one_or_none_one:
  "filter (\<lambda>r. name r = nm) (managers s) = [m] \<Longrightarrow> scalar_one_or_none s nm = Inr (Some m)"
  by (simp add: scalar_one_or_none_def)

lemma scalar_one_or_none_Some:
  "scalar_one_or_none s nm = Inr (Some m) \<longleftrightarrow> filter (\<lambda>r. name r = nm) (managers s) = [m]"
  by (auto simp: scalar_one_or_none_def split: list.splits)




subsection \<open>Deactivation\<close>

lemma release_orphans_managers: "managers (release_orphans ra r ns s) = managers s"
  by (induction ns arbitrary: s) (auto split: prod.splits)

lemma release_orphans_next_id: "next_id (release_orphans ra r ns s) = next_id s"
  by (induction ns arbitrary: s) (auto split: prod.splits)

lemma release_orphans_utcnow: "utcnow (release_orphans ra r ns s) = utcnow s"
  by (induction ns arbitrary: s) (auto split: prod.splits)

lemma release_orphans_tasks:
  "tasks (release_orphans ra r ns s) = foldl (\<lambda>t n. snd (ra [n] t)) (tasks s) ns"
  by (induction ns arbitrary: s) (auto split: prod.splits)

lemma deactivate_where_hit: "deactivate_where names mb m = hit names mb m"
  by (cases names; cases mb)
     (auto simp: deactivate_where_def hit_def query_and_def truthy_names_def truthy_datetime_def)

lemma deactivate_result:
  assumes "truthy_names names \<or> truthy_datetime mb"
  shows "deactivate ra names mb reason s =
     (map name (filter (hit names mb) (managers s)),
      release_orphans ra reason (map name (filter (hit names mb) (managers s)))
        (s\<lparr>managers := map (\<lambda>m. if hit names mb m
                                then m\<lparr>status := inactive, modified_on := utcnow s\<rparr> else m)
                          (managers s)\<rparr>))"
proof -
  have "deactivate_where names mb = hit names mb"
    by (rule ext) (rule deactivate_where_hit)
  with assms show ?thesis
    by (auto simp: deactivate_def Let_def)
qed

lemma deactivate_names:
  "map name (managers (snd (deactivate ra names mb reason s))) = map name (managers s)"
  by (simp add: deactivate_def Let_def release_orphans_managers o_def)

lemma deactivate_dead_inactive:
  assumes "deactivate ra names mb reason s = (dead, s')" and "nm \<in> set dead"
  shows "\<exists>m \<in> set (managers s'). name m = nm \<and> status m = inactive"
proof (cases "\<not> truthy_names names \<and> \<not> truthy_datetime mb")
  case True
  with assms show ?thesis by (simp add: deactivate_def)
next
  case False
  with assms obtain m where m: "m \<in> set (managers s)" "deactivate_where names mb m" "name m = nm"
    by (auto simp: deactivate_def Let_def)
  from False assms have "managers s' =
      map (\<lambda>m. if deactivate_where names mb m
                 then m\<lparr>status := inactive, modified_on := utcnow s\<rparr> else m) (managers s)"
    by (auto simp: deactivate_def Let_def release_orphans_managers)
  with m have "m\<lparr>status := inactive, modified_on := utcnow s\<rparr> \<in> set (managers s')"
    by force
  with m show ?thesis
    by (intro bexI [of _ "m\<lparr>status := inactive, modified_on := utcnow s\<rparr>"]) simp_all
qed

subsection \<open>The heartbeat\<close>

lemma update_resource_stats_success:
  assumes "update_resource_stats nm w t n_tasks n_cores mem s = (Inr (), s')"
  shows "\<exists>m. filter (\<lambda>r. name r = nm) (managers s) = [m] \<and> status m = active
           \<and> s' = s\<lparr>managers :=
                 map (\<lambda>row. if name row = nm
                        then save_snapshot (m\<lparr>total_worker_walltime := w,
                               total_task_walltime := PyTuple [PyFloat t],
                               active_tasks := n_tasks, active_cores := n_cores,
                               active_memory := mem, modified_on := utcnow s\<rparr>)
                        else row) (managers s)\<rparr>"
  using assms
  by (auto simp: update_resource_stats_def Let_def scalar_one_or_none_Some
      split: sum.splits option.splits if_splits)

lemma update_names:
  "map name (managers (snd (update_resource_stats nm w t n_tasks n_cores mem s)))
     = map name (managers s)"
proof (cases "fst (update_resource_stats nm w t n_tasks n_cores mem s)")
  case (Inl e)
  then show ?thesis
    by (auto simp: update_resource_stats_def Let_def split: sum.splits option.splits if_splits)
next
  case (Inr u)
  then have "update_resource_stats nm w t n_tasks n_cores mem s
      = (Inr (), snd (update_resource_stats nm w t n_tasks n_cores mem s))"
    by (simp add: prod_eq_iff)
  from update_resource_stats_success [OF this]
  obtain m where m: "filter (\<lambda>r. name r = nm) (managers s) = [m]"
    and s': "snd (update_resource_stats nm w t n_tasks n_cores mem s) = s\<lparr>managers :=
                 map (\<lambda>row. if name row = nm
                        then save_snapshot (m\<lparr>total_worker_walltime := w,
                               total_task_walltime := PyTuple [PyFloat t],
                               active_tasks := n_tasks, active_cores := n_cores,
                               active_memory := mem, modified_on := utcnow s\<rparr>)
                        else row) (managers s)\<rparr>"
    by blast
  from m have "m \<in> set (filter (\<lambda>r. name r = nm) (managers s))"
    by simp
  then have "name m = nm"
    by simp
  then show ?thesis
    unfolding s' by (simp add: save_snapshot_def o_def cong: map_cong)
qed

lemma heartbeat0:
  "update_resource_stats ''m1'' 50 20 3 4 2 server0 =
     (Inr (),
      server0\<lparr>managers :=
        [m1\<lparr>total_worker_walltime := 50, total_task_walltime := PyTuple [PyFloat 20],
            active_tasks := 3, active_cores := 4, active_memory := 2, modified_on := 10,
            log' := [\<lparr> claimed = 7, successes = 0, failures = 0, rejected = 0,
                       total_worker_walltime = 50,
                       total_task_walltime = PyTuple [PyFloat 20],
                       active_tasks = 3, active_cores = 4, active_memory = 2,
                       timestamp = 10 \<rparr>]\<rparr>,
         m2]\<rparr>)"
  by (simp add: update_resource_stats_def scalar_one_or_none_def save_snapshot_def Let_def
        server0_def m1_def m2_def dflt0_def)

subsection \<open>Runs\<close>









lemma step_keeps_names_distinct:
  assumes "distinct (map name (managers s))"
  shows "distinct (map name (managers (step dflt ra c s)))"
proof (cases c)
  case (Activate name_data mv qv user progs tgs)
  with assms show ?thesis
    by (auto simp: activate_def Let_def get_count_2_def filter_empty_conv image_iff)
next
  case (UpdateResourceStats nm w t n_tasks n_cores mem)
  with assms show ?thesis by (simp add: update_names)
next
  case (Deactivate names mb reason)
  with assms show ?thesis by (simp add: deactivate_names)
next
  case (Clock t)
  with assms show ?thesis by simp
qed

lemma run_keeps_names_distinct:
  "distinct (map name (managers s)) \<Longrightarrow> distinct (map name (managers (run dflt ra cs s)))"
  by (induction cs arbitrary: s) (simp_all add: step_keeps_names_distinct)

section \<open>The claims\<close>

subsection \<open>Deactivation: which rows change, what is returned, what is released\<close>

text \<open>
  The two filters of \<^verbatim>\<open>deactivate\<close> are joined by "and", as its docstring says, not
  by "or". On the small server, \<open>m1\<close> is active and its name is among the given
  names, but it was modified at 5, not before the cutoff 3: the call returns no name
  and leaves every row, and the task subsystem, as it was.
\<close>

theorem deactivate_or_filter_counterexample:
  "status m1 = active
   \<and> (name m1 \<in> set [''m1''] \<or> modified_on m1 < 3)
   \<and> truthy_names (Some [''m1''])
   \<and> deactivate record_call (Some [''m1'']) (Some 3) ''sweep'' server0 = ([], server0)
   \<and> ''m1'' \<notin> set (fst (deactivate record_call (Some [''m1'']) (Some 3) ''sweep'' server0))
   \<and> map status (managers (snd (deactivate record_call (Some [''m1'']) (Some 3) ''sweep'' server0)))
       = [active, inactive]"
  by (simp add: deactivate_def Let_def deactivate_where_def query_and_def truthy_names_def
        truthy_datetime_def server0_def m1_def m2_def dflt0_def)

text \<open>
  C1 (with the filters joined by "and"). For every call of \<^verbatim>\<open>deactivate\<close> with at
  least one filter supplied (a non-empty list of names, or a cutoff), exactly the rows
  that are active and pass every supplied filter (the name is among the given names,
  when a non-empty list is given; and \<^verbatim>\<open>modified_on\<close> is before the cutoff, when one
  is given) become inactive with \<^verbatim>\<open>modified_on\<close> set to the clock's reading, and every
  other row is unchanged. The call returns the names of exactly those rows, in row
  order. The task subsystem is left in the state that one call of
  \<^verbatim>\<open>reset_assigned\<close> per returned name, in that order, produces: no call is made
  for any other name. Where the names of the table are distinct, no name is returned,
  and so released, twice.
\<close>

theorem deactivate_transitions_hit_rows:
  assumes "truthy_names names \<or> truthy_datetime mb"
    and "deactivate ra names mb reason s = (dead, s')"
  shows "managers s' = map (\<lambda>m. if hit names mb m
                                 then m\<lparr>status := inactive, modified_on := utcnow s\<rparr> else m)
                           (managers s)
       \<and> dead = map name (filter (hit names mb) (managers s))
       \<and> tasks s' = foldl (\<lambda>t n. snd (ra [n] t)) (tasks s) dead
       \<and> next_id s' = next_id s
       \<and> (distinct (map name (managers s)) \<longrightarrow> distinct dead)"
proof -
  from assms(2) have "(dead, s') = deactivate ra names mb reason s"
    by simp
  then have d: "dead = map name (filter (hit names mb) (managers s))"
    and s': "s' = release_orphans ra reason dead
        (s\<lparr>managers := map (\<lambda>m. if hit names mb m
                                then m\<lparr>status := inactive, modified_on := utcnow s\<rparr> else m)
                          (managers s)\<rparr>)"
    unfolding deactivate_result [OF assms(1)] by simp_all
  from d have "distinct (map name (managers s)) \<longrightarrow> distinct dead"
    by (simp add: distinct_map_filter)
  with d s' show ?thesis
    by (simp add: release_orphans_managers release_orphans_tasks release_orphans_next_id)
qed

text \<open>
  On the small server, asked for \<open>m1\<close>, the inactive \<open>m2\<close> and the unknown
  \<open>m9\<close>: only \<open>m1\<close> is hit, returned and released.
\<close>

theorem deactivate_transitions_hit_rows_witness:
  "truthy_names (Some [''m1'', ''m2'', ''m9''])
   \<and> deactivate record_call (Some [''m1'', ''m2'', ''m9'']) None ''stop'' server0 =
       ([''m1''], snd (deactivate record_call (Some [''m1'', ''m2'', ''m9'']) None ''stop'' server0))
   \<and> map (hit (Some [''m1'', ''m2'', ''m9'']) None) (managers server0) = [True, False]
   \<and> managers (snd (deactivate record_call (Some [''m1'', ''m2'', ''m9'']) None ''stop'' server0))
       = [m1\<lparr>status := inactive, modified_on := 10\<rparr>, m2]
   \<and> tasks (snd (deactivate record_call (Some [''m1'', ''m2'', ''m9'']) None ''stop'' server0))
       = [[''m1'']]"
proof -
  let ?run = "deactivate record_call (Some [''m1'', ''m2'', ''m9'']) None ''stop'' server0"
  have t: "truthy_names (Some [''m1'', ''m2'', ''m9'']) \<or> truthy_datetime None"
    by (simp add: truthy_names_def)
  have h: "map (hit (Some [''m1'', ''m2'', ''m9'']) None) (managers server0) = [True, False]"
    by (simp add: hit_def server0_def m1_def m2_def dflt0_def)
  then have hs: "hit (Some [''m1'', ''m2'', ''m9'']) None m1" "\<not> hit (Some [''m1'', ''m2'', ''m9'']) None m2"
    by (simp_all add: server0_def)
  have nm: "name m1 = ''m1''" by (simp add: m1_def dflt0_def)
  have "?run = (fst ?run, snd ?run)" by simp
  from deactivate_transitions_hit_rows [OF t this]
  have "managers (snd ?run) = [m1\<lparr>status := inactive, modified_on := 10\<rparr>, m2]"
    and "fst ?run = [''m1'']"
    and "tasks (snd ?run) = foldl (\<lambda>t n. snd (record_call [n] t)) (tasks server0) (fst ?run)"
    using hs nm by (simp_all add: server0_def)
  then show ?thesis
    using h by (simp add: truthy_names_def record_call_def server0_def prod_eq_iff)
qed

subsection \<open>The heartbeat: the log entry\<close>

text \<open>
  \<^verbatim>\<open>save_snapshot\<close> runs after the counters are overwritten, so the new log entry
  carries the supplied values, not the totals the row had before the call: on the
  small server the worker walltime of \<open>m1\<close> was 1 and its active tasks 0, and the
  entry records 50 and 3.
\<close>

theorem update_log_pre_update_totals_counterexample:
  "fst (update_resource_stats ''m1'' 50 20 3 4 2 server0) = Inr ()
   \<and> total_worker_walltime (hd (managers server0)) = 1
   \<and> total_worker_walltime
       (last (log' (hd (managers (snd (update_resource_stats ''m1'' 50 20 3 4 2 server0)))))) = 50
   \<and> active_tasks (hd (managers server0)) = 0
   \<and> active_tasks
       (last (log' (hd (managers (snd (update_resource_stats ''m1'' 50 20 3 4 2 server0)))))) = 3"
  by (simp add: heartbeat0) (simp add: server0_def m1_def dflt0_def)

text \<open>
  C2 (with the snapshot taken after the update). Every successful
  \<^verbatim>\<open>update_resource_stats\<close> changes only the one row with the given name and
  appends exactly one entry to its log. The entry carries the row's \<^verbatim>\<open>claimed\<close>,
  \<^verbatim>\<open>successes\<close>, \<^verbatim>\<open>failures\<close> and \<^verbatim>\<open>rejected\<close> counters, which the call does
  not change; the supplied worker walltime, active tasks, active cores and active
  memory; the task walltime that the row now stores; and as timestamp the row's new
  \<^verbatim>\<open>modified_on\<close>, which is the reading of the clock during the call and no argument
  of the caller.
\<close>

theorem update_resource_stats_appends_snapshot:
  assumes "update_resource_stats nm w t n_tasks n_cores mem s = (Inr (), s')"
  shows "\<exists>m m'. filter (\<lambda>r. name r = nm) (managers s) = [m]
           \<and> s' = s\<lparr>managers := map (\<lambda>row. if name row = nm then m' else row) (managers s)\<rparr>
           \<and> log' m' = log' m @
                 [\<lparr> claimed = claimed m, successes = successes m, failures = failures m,
                    rejected = rejected m, total_worker_walltime = w,
                    total_task_walltime = total_task_walltime m',
                    active_tasks = n_tasks, active_cores = n_cores, active_memory = mem,
                    timestamp = utcnow s \<rparr>]
           \<and> modified_on m' = utcnow s"
proof -
  from update_resource_stats_success [OF assms]
  obtain m where m: "filter (\<lambda>r. name r = nm) (managers s) = [m]"
    and s': "s' = s\<lparr>managers :=
                 map (\<lambda>row. if name row = nm
                        then save_snapshot (m\<lparr>total_worker_walltime := w,
                               total_task_walltime := PyTuple [PyFloat t],
                               active_tasks := n_tasks, active_cores := n_cores,
                               active_memory := mem, modified_on := utcnow s\<rparr>)
                        else row) (managers s)\<rparr>"
    by blast
  show ?thesis
    by (intro exI [of _ m] exI [of _ "save_snapshot (m\<lparr>total_worker_walltime := w,
                               total_task_walltime := PyTuple [PyFloat t],
                               active_tasks := n_tasks, active_cores := n_cores,
                               active_memory := mem, modified_on := utcnow s\<rparr>)"])
       (simp add: m s' save_snapshot_def)
qed

text \<open>A heartbeat of \<open>m1\<close> on the small server: one entry more for \<open>m1\<close>, none for \<open>m2\<close>.\<close>

theorem update_resource_stats_appends_snapshot_witness:
  "update_resource_stats ''m1'' 50 20 3 4 2 server0 =
     (Inr (), snd (update_resource_stats ''m1'' 50 20 3 4 2 server0))
   \<and> filter (\<lambda>r. name r = ''m1'') (managers server0) = [m1]
   \<and> map (length \<circ> log') (managers server0) = [0, 0]
   \<and> map (length \<circ> log') (managers (snd (update_resource_stats ''m1'' 50 20 3 4 2 server0))) = [1, 0]
   \<and> map timestamp (log' (hd (managers (snd (update_resource_stats ''m1'' 50 20 3 4 2 server0))))) = [10]
   \<and> map claimed (log' (hd (managers (snd (update_resource_stats ''m1'' 50 20 3 4 2 server0))))) = [7]
   \<and> map active_cores (log' (hd (managers (snd (update_resource_stats ''m1'' 50 20 3 4 2 server0))))) = [4]"
proof -
  let ?run = "update_resource_stats ''m1'' 50 20 3 4 2 server0"
  have ok: "?run = (Inr (), snd ?run)"
    by (simp add: heartbeat0)
  have f: "filter (\<lambda>r. name r = ''m1'') (managers server0) = [m1]"
    and l0: "map (length \<circ> log') (managers server0) = [0, 0]"
    and c: "claimed m1 = 7" and u: "utcnow server0 = 10" and l1: "log' m1 = []"
    and n: "name m1 = ''m1''" "name m2 \<noteq> ''m1''" and ms: "managers server0 = [m1, m2]"
    by (simp_all add: server0_def m1_def m2_def dflt0_def)
  from update_resource_stats_appends_snapshot [OF ok] f
  obtain m' where "snd ?run = server0\<lparr>managers :=
        map (\<lambda>row. if name row = ''m1'' then m' else row) (managers server0)\<rparr>"
    and "log' m' = log' m1 @
                 [\<lparr> claimed = claimed m1, successes = successes m1, failures = failures m1,
                    rejected = rejected m1, total_worker_walltime = 50,
                    total_task_walltime = total_task_walltime m',
                    active_tasks = 3, active_cores = 4, active_memory = 2,
                    timestamp = utcnow server0 \<rparr>]"
    by auto
  then have "map (length \<circ> log') (managers (snd ?run)) = [1, 0]"
    and "map timestamp (log' (hd (managers (snd ?run)))) = [10]"
    and "map claimed (log' (hd (managers (snd ?run)))) = [7]"
    and "map active_cores (log' (hd (managers (snd ?run)))) = [4]"
    using c u l1 n ms l0 by simp_all
  with ok f l0 show ?thesis by blast
qed

subsection \<open>The heartbeat: the stored counters\<close>


subsection \<open>The status never returns to active\<close>



subsection \<open>The heartbeat: errors\<close>

text \<open>
  C5. \<^verbatim>\<open>update_resource_stats\<close> raises \<^verbatim>\<open>ComputeManagerError\<close> with
  \<^verbatim>\<open>shutdown=True\<close> and the message "... does not exist" (the specification's
  \<^verbatim>\<open>UnknownManagerError\<close>) when no row has the name, and with the message
  "... is not active" (the specification's \<^verbatim>\<open>InactiveManagerError\<close>) when the
  row with the name is not active. In both cases the state it returns is the state it
  was given: no manager row and no log has changed. In particular, where names are
  distinct, a heartbeat for a name that \<^verbatim>\<open>deactivate\<close> has just returned fails with
  the second error, at whatever later time it arrives.
\<close>

theorem update_resource_stats_errors:
  "((\<forall>m \<in> set (managers s). name m \<noteq> nm) \<longrightarrow>
      update_resource_stats nm w t n_tasks n_cores mem s =
        (Inl (ComputeManagerError
           (''Cannot update resource stats for manager '' @ nm @ '' - does not exist'') True), s))
   \<and> (filter (\<lambda>r. name r = nm) (managers s) = [m] \<and> status m \<noteq> active \<longrightarrow>
      update_resource_stats nm w t n_tasks n_cores mem s =
        (Inl (ComputeManagerError
           (''Cannot update resource stats for manager '' @ nm @ '' - is not active'') True), s))
   \<and> (distinct (map name (managers s)) \<and> deactivate ra names mb reason s = (dead, s')
        \<and> nm \<in> set dead \<longrightarrow>
      update_resource_stats nm w t n_tasks n_cores mem (s'\<lparr>utcnow := later\<rparr>) =
        (Inl (ComputeManagerError
           (''Cannot update resource stats for manager '' @ nm @ '' - is not active'') True),
         s'\<lparr>utcnow := later\<rparr>))"
proof (intro conjI impI)
  assume "\<forall>m \<in> set (managers s). name m \<noteq> nm"
  then show "update_resource_stats nm w t n_tasks n_cores mem s =
        (Inl (ComputeManagerError
           (''Cannot update resource stats for manager '' @ nm @ '' - does not exist'') True), s)"
    by (simp add: update_resource_stats_def scalar_one_or_none_none)
next
  assume "filter (\<lambda>r. name r = nm) (managers s) = [m] \<and> status m \<noteq> active"
  then show "update_resource_stats nm w t n_tasks n_cores mem s =
        (Inl (ComputeManagerError
           (''Cannot update resource stats for manager '' @ nm @ '' - is not active'') True), s)"
    by (simp add: update_resource_stats_def scalar_one_or_none_one)
next
  assume a: "distinct (map name (managers s)) \<and> deactivate ra names mb reason s = (dead, s')
        \<and> nm \<in> set dead"
  then obtain m where m: "m \<in> set (managers s')" "name m = nm" "status m = inactive"
    using deactivate_dead_inactive by blast
  from a have "map name (managers s') = map name (managers s)"
    using deactivate_names [of ra names mb reason s] by simp
  with a have "distinct (map name (managers s'))" by simp
  with m have "filter (\<lambda>r. name r = nm) (managers (s'\<lparr>utcnow := later\<rparr>)) = [m]"
    using filter_name_unique [of "managers s'" m] by simp
  with m show "update_resource_stats nm w t n_tasks n_cores mem (s'\<lparr>utcnow := later\<rparr>) =
        (Inl (ComputeManagerError
           (''Cannot update resource stats for manager '' @ nm @ '' - is not active'') True),
         s'\<lparr>utcnow := later\<rparr>)"
    by (simp add: update_resource_stats_def scalar_one_or_none_one)
qed

text \<open>
  On the small server: a heartbeat of the unknown \<open>zz\<close>, one of the inactive \<open>m2\<close>,
  and one of \<open>m1\<close> right after it was deactivated.
\<close>

theorem update_resource_stats_errors_witness:
  "update_resource_stats ''zz'' 50 20 3 4 2 server0 =
     (Inl (ComputeManagerError ''Cannot update resource stats for manager zz - does not exist''
        True), server0)
   \<and> filter (\<lambda>r. name r = ''m2'') (managers server0) = [m2]
   \<and> status m2 \<noteq> active
   \<and> update_resource_stats ''m2'' 50 20 3 4 2 server0 =
     (Inl (ComputeManagerError ''Cannot update resource stats for manager m2 - is not active''
        True), server0)
   \<and> distinct (map name (managers server0))
   \<and> fst (deactivate record_call (Some [''m1'']) None ''stop'' server0) = [''m1'']
   \<and> update_resource_stats ''m1'' 50 20 3 4 2
       ((snd (deactivate record_call (Some [''m1'']) None ''stop'' server0))\<lparr>utcnow := 11\<rparr>) =
     (Inl (ComputeManagerError ''Cannot update resource stats for manager m1 - is not active''
        True),
      (snd (deactivate record_call (Some [''m1'']) None ''stop'' server0))\<lparr>utcnow := 11\<rparr>)"
proof -
  let ?d = "deactivate record_call (Some [''m1'']) None ''stop'' server0"
  have none: "\<forall>m \<in> set (managers server0). name m \<noteq> ''zz''"
    and one: "filter (\<lambda>r. name r = ''m2'') (managers server0) = [m2]"
    and st: "status m2 \<noteq> active"
    and dist: "distinct (map name (managers server0))"
    by (simp_all add: server0_def m1_def m2_def dflt0_def)
  have dead: "fst ?d = [''m1'']"
    by (simp add: deactivate_def Let_def deactivate_where_def query_and_def truthy_names_def
          truthy_datetime_def server0_def m1_def m2_def dflt0_def)
  then have d: "?d = ([''m1''], snd ?d)"
    by (simp add: prod_eq_iff)
  note e = update_resource_stats_errors [where w = 50 and t = 20 and n_tasks = 3
      and n_cores = 4 and mem = 2]
  from e [where s = server0 and nm = "''zz''"] none
  have 1: "update_resource_stats ''zz'' 50 20 3 4 2 server0 =
     (Inl (ComputeManagerError ''Cannot update resource stats for manager zz - does not exist''
        True), server0)"
    by simp
  from e [where s = server0 and nm = "''m2''" and m = m2] one st
  have 2: "update_resource_stats ''m2'' 50 20 3 4 2 server0 =
     (Inl (ComputeManagerError ''Cannot update resource stats for manager m2 - is not active''
        True), server0)"
    by simp
  from e [where s = server0 and nm = "''m1''" and ra = record_call and names = "Some [''m1'']"
      and mb = None and reason = "''stop''" and dead = "[''m1'']" and s' = "snd ?d"
      and later = 11] dist d
  have 3: "update_resource_stats ''m1'' 50 20 3 4 2 ((snd ?d)\<lparr>utcnow := 11\<rparr>) =
     (Inl (ComputeManagerError ''Cannot update resource stats for manager m1 - is not active''
        True), (snd ?d)\<lparr>utcnow := 11\<rparr>)"
    by simp
  from 1 one st 2 dist dead 3 show ?thesis by blast
qed

subsection \<open>Activation: duplicate and fresh names\<close>

text \<open>
  C6. For a manager that passes the capability check (some tag and some program are left
  after the blanks are dropped): when a row with the same name exists, \<^verbatim>\<open>activate\<close>
  raises \<^verbatim>\<open>ComputeManagerError\<close> "A manager with this name already exists" with
  \<^verbatim>\<open>shutdown=True\<close> (the specification's \<^verbatim>\<open>DuplicateManagerError\<close>) and
  inserts nothing: the table, the key sequence and the tasks are as before, and only a
  warning has gone to the logger. When no row has the name, it appends exactly one row,
  with that name, status active and the next key, and returns that key; names that
  were distinct stay distinct.
\<close>

theorem activate_duplicate_or_fresh:
  assumes "filter (\<lambda>x. x \<noteq> []) tags' \<noteq> []"
    and "filter (\<lambda>(k, v). k \<noteq> []) programs' \<noteq> []"
  shows "((\<exists>m \<in> set (managers s). name m = fullname name_data) \<longrightarrow>
            activate dflt name_data mv qv user programs' tags' s =
              (Inl (ComputeManagerError ''A manager with this name already exists'' True),
               s\<lparr>logger := logger s @
                    [Warning (''Cannot activate duplicate manager: '' @ fullname name_data)]\<rparr>))
       \<and> ((\<forall>m \<in> set (managers s). name m \<noteq> fullname name_data) \<longrightarrow>
            (\<exists>row. activate dflt name_data mv qv user programs' tags' s =
                     (Inr (id' row),
                      s\<lparr>managers := managers s @ [row], next_id := next_id s + 1\<rparr>)
                 \<and> id' row = next_id s
                 \<and> name row = fullname name_data
                 \<and> status row = active
                 \<and> (distinct (map name (managers s)) \<longrightarrow>
                      distinct (map name (managers s @ [row])))))"
proof (intro conjI impI)
  assume "\<exists>m \<in> set (managers s). name m = fullname name_data"
  then have "0 < get_count_2 s (fullname name_data)"
    by (simp add: get_count_2_pos)
  with assms show "activate dflt name_data mv qv user programs' tags' s =
      (Inl (ComputeManagerError ''A manager with this name already exists'' True),
       s\<lparr>logger := logger s @
            [Warning (''Cannot activate duplicate manager: '' @ fullname name_data)]\<rparr>)"
    by (simp add: activate_def Let_def programs_fold_empty)
next
  assume fresh: "\<forall>m \<in> set (managers s). name m \<noteq> fullname name_data"
  then have count: "\<not> 0 < get_count_2 s (fullname name_data)"
    by (simp add: get_count_2_pos)
  let ?row = "dflt\<lparr>name := fullname name_data, cluster := cluster_of name_data,
      hostname := hostname_of name_data, username := user,
      tags := dict_fromkeys (map lower (filter (\<lambda>x. x \<noteq> []) tags')),
      status := active, manager_version := mv, qcengine_version := qv,
      programs := foldl (\<lambda>d (k, v). if k \<noteq> [] then AList.update (lower k) v d else d)
                    [] programs',
      log' := [], id' := next_id s\<rparr>"
  from assms count
  have run: "activate dflt name_data mv qv user programs' tags' s =
      (Inr (id' ?row), s\<lparr>managers := managers s @ [?row], next_id := next_id s + 1\<rparr>)"
    by (simp add: activate_def Let_def programs_fold_empty)
  from fresh have "distinct (map name (managers s)) \<longrightarrow> distinct (map name (managers s @ [?row]))"
    by (auto simp: image_iff)
  with run
  show "\<exists>row. activate dflt name_data mv qv user programs' tags' s =
                     (Inr (id' row),
                      s\<lparr>managers := managers s @ [row], next_id := next_id s + 1\<rparr>)
                 \<and> id' row = next_id s
                 \<and> name row = fullname name_data
                 \<and> status row = active
                 \<and> (distinct (map name (managers s)) \<longrightarrow>
                      distinct (map name (managers s @ [row])))"
    by (intro exI [of _ ?row]) simp
qed

text \<open>On the small server: \<open>m1\<close> is refused, \<open>m3\<close> becomes the third row with key 3.\<close>

theorem activate_duplicate_or_fresh_witness:
  "filter (\<lambda>x. x \<noteq> []) [''GPU''] \<noteq> []
   \<and> filter (\<lambda>(k, v). k \<noteq> []) [(''psi4'', None :: string option)] \<noteq> []
   \<and> (\<exists>m \<in> set (managers server0). name m = fullname name1)
   \<and> activate dflt0 name1 ''1'' ''2'' None [(''psi4'', None)] [''GPU''] server0 =
       (Inl (ComputeManagerError ''A manager with this name already exists'' True),
        server0\<lparr>logger := [Warning ''Cannot activate duplicate manager: m1'']\<rparr>)
   \<and> fst (activate dflt0 name0 ''1'' ''2'' None [(''psi4'', None)] [''GPU''] server0) = Inr 3
   \<and> map name (managers (snd (activate dflt0 name0 ''1'' ''2'' None [(''psi4'', None)] [''GPU''] server0)))
       = [''m1'', ''m2'', ''m3'']
   \<and> map status (managers (snd (activate dflt0 name0 ''1'' ''2'' None [(''psi4'', None)] [''GPU''] server0)))
       = [active, inactive, active]"
proof -
  have t: "filter (\<lambda>x. x \<noteq> []) [''GPU''] \<noteq> []"
    and p: "filter (\<lambda>(k, v). k \<noteq> []) [(''psi4'', None :: string option)] \<noteq> []"
    by simp_all
  have dup: "\<exists>m \<in> set (managers server0). name m = fullname name1"
    by (simp add: server0_def m1_def m2_def dflt0_def name1_def)
  have fresh: "\<forall>m \<in> set (managers server0). name m \<noteq> fullname name0"
    by (simp add: server0_def m1_def m2_def dflt0_def name0_def)
  note both = activate_duplicate_or_fresh [OF t p, where s = server0 and dflt = dflt0
      and mv = "''1''" and qv = "''2''" and user = None]
  from both [where name_data = name1] dup
  have "activate dflt0 name1 ''1'' ''2'' None [(''psi4'', None)] [''GPU''] server0 =
       (Inl (ComputeManagerError ''A manager with this name already exists'' True),
        server0\<lparr>logger := logger server0 @
          [Warning (''Cannot activate duplicate manager: '' @ fullname name1)]\<rparr>)"
    by blast
  then have 1: "activate dflt0 name1 ''1'' ''2'' None [(''psi4'', None)] [''GPU''] server0 =
       (Inl (ComputeManagerError ''A manager with this name already exists'' True),
        server0\<lparr>logger := [Warning ''Cannot activate duplicate manager: m1'']\<rparr>)"
    by (simp add: server0_def name1_def)
  from both [where name_data = name0] fresh
  obtain row where "activate dflt0 name0 ''1'' ''2'' None [(''psi4'', None)] [''GPU''] server0 =
       (Inr (id' row), server0\<lparr>managers := managers server0 @ [row], next_id := next_id server0 + 1\<rparr>)"
    and "id' row = next_id server0" and "name row = fullname name0" and "status row = active"
    by blast
  then have 2: "fst (activate dflt0 name0 ''1'' ''2'' None [(''psi4'', None)] [''GPU''] server0) = Inr 3"
    and 3: "map name (managers (snd (activate dflt0 name0 ''1'' ''2'' None [(''psi4'', None)] [''GPU''] server0)))
       = [''m1'', ''m2'', ''m3'']"
    and 4: "map status (managers (snd (activate dflt0 name0 ''1'' ''2'' None [(''psi4'', None)] [''GPU''] server0)))
       = [active, inactive, active]"
    by (simp_all add: server0_def m1_def m2_def dflt0_def name0_def)
  from t p dup 1 2 3 4 show ?thesis by blast
qed

subsection \<open>Activation: the stored tags and programs\<close>

text \<open>
  C7. A successful \<^verbatim>\<open>activate\<close> appends one row. Its tags are the non-empty input
  tags, lower-cased and deduplicated in first-seen order (so they are distinct and are
  exactly the lower-cased non-empty input tags). Its programs are the input items with
  a non-empty key, the keys lower-cased: the keys stand in first-seen order, and each
  key maps to the value of the last item that has it, as in a Python dict.
\<close>

theorem activate_stores_normalised_capabilities:
  assumes "activate dflt name_data mv qv user programs' tags' s = (Inr i, s')"
  shows "\<exists>row. managers s' = managers s @ [row] \<and> id' row = i
           \<and> tags row = dedup_first_seen (map lower (filter (\<lambda>x. x \<noteq> []) tags'))
           \<and> distinct (tags row)
           \<and> set (tags row) = lower ` {x \<in> set tags'. x \<noteq> []}
           \<and> map fst (programs row) = dedup_first_seen (map fst (lowered_programs programs'))
           \<and> map_of (programs row) = map_of (rev (lowered_programs programs'))"
  using assms
  by (auto simp: activate_def Let_def dict_fromkeys_dedup programs_fold_keys
        programs_fold_map_of foldl_insert_keys distinct_dedup_first_seen
        set_dedup_first_seen
      split: if_splits)

text \<open>Tags and programs with blanks, mixed case and duplicates.\<close>

theorem activate_stores_normalised_capabilities_witness:
  "fst (activate dflt0 name0 ''1'' ''2'' None
          [(''Psi4'', Some ''1.4''), ([], None), (''psi4'', None), (''RDKit'', None)]
          [''GPU'', [], ''gpu'', ''Big'', ''GPU''] server0) = Inr 3
   \<and> tags (last (managers (snd (activate dflt0 name0 ''1'' ''2'' None
          [(''Psi4'', Some ''1.4''), ([], None), (''psi4'', None), (''RDKit'', None)]
          [''GPU'', [], ''gpu'', ''Big'', ''GPU''] server0))))
       = dedup_first_seen (map lower (filter (\<lambda>x. x \<noteq> []) [''GPU'', [], ''gpu'', ''Big'', ''GPU'']))
   \<and> dedup_first_seen (map lower (filter (\<lambda>x. x \<noteq> []) [''GPU'', [], ''gpu'', ''Big'', ''GPU'']))
       = [''gpu'', ''big'']
   \<and> programs (last (managers (snd (activate dflt0 name0 ''1'' ''2'' None
          [(''Psi4'', Some ''1.4''), ([], None), (''psi4'', None), (''RDKit'', None)]
          [''GPU'', [], ''gpu'', ''Big'', ''GPU''] server0))))
       = [(''psi4'', None), (''rdkit'', None)]"
proof -
  let ?run = "activate dflt0 name0 ''1'' ''2'' None
          [(''Psi4'', Some ''1.4''), ([], None), (''psi4'', None), (''RDKit'', None)]
          [''GPU'', [], ''gpu'', ''Big'', ''GPU''] server0"
  have low: "lower ''GPU'' = ''gpu''" "lower ''gpu'' = ''gpu''" "lower ''Big'' = ''big''"
    "lower ''Psi4'' = ''psi4''" "lower ''psi4'' = ''psi4''" "lower ''RDKit'' = ''rdkit''"
    by (simp_all add: lower_def char_lower_def)
  have ok: "fst ?run = Inr 3"
    by (simp add: activate_def Let_def low dict_fromkeys_def get_count_2_def
          server0_def m1_def m2_def dflt0_def name0_def)
  have prog: "programs (last (managers (snd ?run))) = [(''psi4'', None), (''rdkit'', None)]"
    by (simp add: activate_def Let_def low dict_fromkeys_def get_count_2_def
          server0_def m1_def m2_def dflt0_def name0_def)
  from ok have "?run = (Inr 3, snd ?run)"
    by (metis prod.collapse)
  from activate_stores_normalised_capabilities [OF this]
  have "tags (last (managers (snd ?run)))
       = dedup_first_seen (map lower (filter (\<lambda>x. x \<noteq> []) [''GPU'', [], ''gpu'', ''Big'', ''GPU'']))"
    by auto
  moreover have "dedup_first_seen (map lower (filter (\<lambda>x. x \<noteq> []) [''GPU'', [], ''gpu'', ''Big'', ''GPU'']))
       = [''gpu'', ''big'']"
    by (simp add: low)
  ultimately show ?thesis using ok prog by blast
qed

subsection \<open>Activation rejects a manager without capabilities\<close>

text \<open>
  C8. When no tag is left after the empty tags are dropped, or no program is left
  after the programs with an empty key are dropped, \<^verbatim>\<open>activate\<close> raises
  \<^verbatim>\<open>ComputeManagerError\<close> with \<^verbatim>\<open>shutdown=True\<close> (the specification's
  \<^verbatim>\<open>InvalidManagerConfig\<close>): the tag message when the tags are empty, the program
  message otherwise. The state it returns is the state it was given: no row, key
  sequence, task or log line has changed.
\<close>

theorem activate_rejects_empty_capabilities:
  "(filter (\<lambda>x. x \<noteq> []) tags' = [] \<longrightarrow>
      activate dflt name_data mv qv user programs' tags' s =
        (Inl (ComputeManagerError
           (''Manager does not have any tags assigned. Use '' @ [CHR 0x27, CHR ''*'', CHR 0x27]
            @ '' to match all tags'') True), s))
   \<and> (filter (\<lambda>x. x \<noteq> []) tags' \<noteq> [] \<and> filter (\<lambda>(k, v). k \<noteq> []) programs' = [] \<longrightarrow>
      activate dflt name_data mv qv user programs' tags' s =
        (Inl (ComputeManagerError ''Manager does not have any programs available'' True), s))"
  by (simp add: activate_def Let_def programs_fold_empty)

text \<open>Only blank tags; and a tag, but only a program with an empty key.\<close>

theorem activate_rejects_empty_capabilities_witness:
  "filter (\<lambda>x. x \<noteq> []) [[], []] = ([] :: string list)
   \<and> activate dflt0 name0 ''1'' ''2'' None [(''psi4'', None)] [[], []] server0 =
       (Inl (ComputeManagerError
          (''Manager does not have any tags assigned. Use '' @ [CHR 0x27, CHR ''*'', CHR 0x27]
           @ '' to match all tags'') True), server0)
   \<and> filter (\<lambda>x. x \<noteq> []) [''GPU''] \<noteq> []
   \<and> filter (\<lambda>(k, v). k \<noteq> []) [([] :: string, Some ''1.4'')] = []
   \<and> activate dflt0 name0 ''1'' ''2'' None [([], Some ''1.4'')] [''GPU''] server0 =
       (Inl (ComputeManagerError ''Manager does not have any programs available'' True), server0)"
  using activate_rejects_empty_capabilities
          [where tags' = "[[], []]" and programs' = "[(''psi4'', None)]" and dflt = dflt0
             and name_data = name0 and mv = "''1''" and qv = "''2''" and user = None
             and s = server0]
        activate_rejects_empty_capabilities
          [where tags' = "[''GPU'']" and programs' = "[([], Some ''1.4'')]" and dflt = dflt0
             and name_data = name0 and mv = "''1''" and qv = "''2''" and user = None
             and s = server0]
  by simp

subsection \<open>Deactivation without a filter\<close>

text \<open>
  C9. \<^verbatim>\<open>deactivate\<close> called with neither a name list nor a cutoff (and likewise with
  an empty name list and no cutoff) returns the empty list and the state it was given:
  no manager row, no log and no task has changed, and \<^verbatim>\<open>reset_assigned\<close> was not
  called.
\<close>

theorem deactivate_without_filter_is_noop:
  "deactivate reset_assigned None None reason s = ([], s)
   \<and> deactivate reset_assigned (Some []) None reason s = ([], s)"
  by (simp add: deactivate_def truthy_names_def truthy_datetime_def)

text \<open>On the small server, with the recording task subsystem.\<close>

theorem deactivate_without_filter_is_noop_witness:
  "deactivate record_call None None ''sweep'' server0 = ([], server0)
   \<and> deactivate record_call (Some []) None ''sweep'' server0 = ([], server0)"
  using deactivate_without_filter_is_noop
          [where reset_assigned = record_call and reason = "''sweep''" and s = server0]
  by simp

subsection \<open>The size guard of get\<close>

text \<open>
  C10. When more names are requested than \<^verbatim>\<open>response_limits.manager\<close> allows,
  \<^verbatim>\<open>get\<close> raises \<^verbatim>\<open>RuntimeError\<close> (the specification's
  \<^verbatim>\<open>RequestTooLargeError\<close>) and returns the state it was given. The result does not
  depend on \<open>get_general\<close>, the only access of \<^verbatim>\<open>get\<close> to the store: nothing is
  read.
\<close>

theorem get_over_limit_fails:
  "int (length names) > manager_limit \<Longrightarrow>
   get manager_limit get_general names include' exclude' missing_ok s =
     (Inl (RuntimeError (''Request for '' @ str_nat (length names)
             @ '' managers is over the limit of '' @ str_int manager_limit)), s)"
  by (simp add: get_def)

text \<open>Three names against a limit of two.\<close>

theorem get_over_limit_fails_witness:
  "int (length [''a'', ''b'', ''c'']) > 2
   \<and> get 2 no_get_general [''a'', ''b'', ''c''] None None False server0 =
       (Inl (RuntimeError ''Request for 3 managers is over the limit of 2''), server0)"
  using get_over_limit_fails
          [where manager_limit = 2 and names = "[''a'', ''b'', ''c'']"
             and get_general = no_get_general and include' = None and exclude' = None
             and missing_ok = False and s = server0]
  by (simp add: str_int_def str_nat.simps)

end
